theory Spec2Isabelle
  imports Complex_Main "HOL-Library.AList"
begin

section \<open>Values, documents and responses\<close>

text \<open>
  The handlers of \<^verbatim>\<open>server.js\<close> read JSON request bodies and read and write BSON
  documents. One datatype covers both: the JSON values, and the two BSON values the
  handlers create themselves (an ObjectId and a Date). A JavaScript number is a double:
  a finite double is modelled by its exact rational value, next to the two infinities
  and NaN. A string is a list of 8-bit characters, read as the code points U+0000 to
  U+00FF. An object is its list of properties; a property is looked up with
  \<open>map_of\<close>. \<open>undefined\<close> is \<open>None\<close> of type \<open>val option\<close>.
\<close>

type_synonym oid = nat

datatype jsnum = Fin rat | PosInf | NegInf | NaN

datatype val =
    JNull
  | JBool bool
  | JNum jsnum
  | JStr string
  | JArr "val list"
  | JObj "(string \<times> val) list"
  | JOid oid
  | JDate nat

type_synonym doc = "(string \<times> val) list"

datatype response = Response (status: nat) (body: val)

text \<open>\<^verbatim>\<open>res.status(c).json({ error: msg })\<close>\<close>

definition error_json :: "nat \<Rightarrow> string \<Rightarrow> response" where
  "error_json c msg = Response c (JObj [(''error'', JStr msg)])"

text \<open>\<^verbatim>\<open>res.json(docs)\<close> for an array of documents (status 200).\<close>

definition json_docs :: "doc list \<Rightarrow> response" where
  "json_docs ds = Response 200 (JArr (map JObj ds))"

text \<open>
  The two collections of the document store, and the counter from which the driver
  draws the ObjectId of an inserted document (the driver's generator never repeats an
  identifier within a process; the counter stands for it). The store is reachable and its
  operations return, and the driver writes the documents it is given. Of what the
  driver refuses to write, the model has the one value a handler builds from a request:
  a regular expression whose source has the character U+0000 (\<open>find_or\<close> below).
\<close>

record store =
  lessons :: "doc list"
  orders :: "doc list"
  next_oid :: oid

text \<open>
  The built-ins of the runtime and of the driver whose value on a string is fixed outside
  this repository are parameters of the model:
  \<^item> \<open>Number\<close>: \<^verbatim>\<open>Number(s)\<close>, the number a string converts to (\<open>NaN\<close> when it is
    not a numeric literal);
  \<^item> \<open>NumberToString\<close>: the string a number converts to;
  \<^item> \<open>ObjectId\<close>: \<^verbatim>\<open>new ObjectId(s)\<close> on a string, \<open>None\<close> when the constructor
    throws;
  \<^item> \<open>resultMetadata\<close>: what the driver's \<^verbatim>\<open>findOneAndUpdate\<close> returns. The
    repository names no version of the driver: before version 6 the result is an object
    that holds the document as its property \<^verbatim>\<open>value\<close> (\<open>True\<close>), from version 6
    it is the document itself (\<open>False\<close>).
\<close>

record host =
  Number :: "string \<Rightarrow> jsnum"
  NumberToString :: "jsnum \<Rightarrow> string"
  ObjectId :: "string \<Rightarrow> oid option"
  resultMetadata :: bool

section \<open>JavaScript primitives used by the handlers\<close>

text \<open>Truthiness of a value; \<open>falsy\<close> is the operator \<^verbatim>\<open>!\<close>, also on \<open>undefined\<close>.\<close>

fun truthy :: "val \<Rightarrow> bool" where
  "truthy JNull = False"
| "truthy (JBool b) = b"
| "truthy (JNum n) = (n \<noteq> Fin 0 \<and> n \<noteq> NaN)"
| "truthy (JStr s) = (s \<noteq> [])"
| "truthy (JArr xs) = True"
| "truthy (JObj kvs) = True"
| "truthy (JOid i) = True"
| "truthy (JDate t) = True"

fun falsy :: "val option \<Rightarrow> bool" where
  "falsy None = True"
| "falsy (Some v) = (\<not> truthy v)"

text \<open>
  Reading one of the properties the handlers read (\<^verbatim>\<open>name\<close>, \<^verbatim>\<open>phone\<close>,
  \<^verbatim>\<open>items\<close>, \<^verbatim>\<open>lessonId\<close>, \<^verbatim>\<open>quantity\<close>) from a value other than
  \<^verbatim>\<open>null\<close>: an object has it when it is among its properties, a primitive or an array
  has none of them.
\<close>

fun get_prop :: "val \<Rightarrow> string \<Rightarrow> val option" where
  "get_prop (JObj kvs) k = map_of kvs k"
| "get_prop v k = None"

text \<open>\<^verbatim>\<open>String(v)\<close>, the conversion \<^verbatim>\<open>RegExp.prototype.test\<close> applies to its argument.\<close>

fun join_comma :: "string list \<Rightarrow> string" where
  "join_comma [] = []"
| "join_comma [s] = s"
| "join_comma (s # t # ss) = s @ '','' @ join_comma (t # ss)"

fun ToString :: "host \<Rightarrow> val \<Rightarrow> string" where
  "ToString h JNull = ''null''"
| "ToString h (JBool b) = (if b then ''true'' else ''false'')"
| "ToString h (JNum n) = NumberToString h n"
| "ToString h (JStr s) = s"
| "ToString h (JArr xs) = join_comma (map (\<lambda>x. if x = JNull then [] else ToString h x) xs)"
| "ToString h (JObj kvs) = ''[object Object]''"
| "ToString h (JOid i) = ''[object Object]''"
| "ToString h (JDate t) = ''[object Object]''"

text \<open>Character classes: \<^verbatim>\<open>\s\<close> (also what \<^verbatim>\<open>trim\<close> removes), \<^verbatim>\<open>[A-Za-z]\<close>, \<^verbatim>\<open>\d\<close>.\<close>

definition is_space :: "char \<Rightarrow> bool" where
  "is_space c = (c \<in> set [CHR 0x09, CHR 0x0A, CHR 0x0B, CHR 0x0C, CHR 0x0D, CHR 0x20, CHR 0xA0])"

definition is_letter :: "char \<Rightarrow> bool" where
  "is_letter c = (c \<in> set ''ABCDEFGHIJKLMNOPQRSTUVWXYZabcdefghijklmnopqrstuvwxyz'')"

definition is_digit :: "char \<Rightarrow> bool" where
  "is_digit c = (c \<in> set ''0123456789'')"

text \<open>\<^verbatim>\<open>/^[A-Za-z\s]+$/.test(v)\<close> and \<^verbatim>\<open>/^\d+$/.test(v)\<close>.\<close>

definition name_re_test :: "host \<Rightarrow> val \<Rightarrow> bool" where
  "name_re_test h v =
     (let s = ToString h v in s \<noteq> [] \<and> list_all (\<lambda>c. is_letter c \<or> is_space c) s)"

definition phone_re_test :: "host \<Rightarrow> val \<Rightarrow> bool" where
  "phone_re_test h v = (let s = ToString h v in s \<noteq> [] \<and> list_all is_digit s)"

text \<open>\<^verbatim>\<open>String.prototype.trim\<close>\<close>

definition trim :: "string \<Rightarrow> string" where
  "trim s = rev (dropWhile is_space (rev (dropWhile is_space s)))"

text \<open>\<^verbatim>\<open>Number.isNaN\<close>, \<^verbatim>\<open>Number.isInteger\<close>, and \<^verbatim>\<open>n <= 0\<close> on a number.\<close>

fun Number_isNaN :: "val \<Rightarrow> bool" where
  "Number_isNaN (JNum NaN) = True"
| "Number_isNaN v = False"

fun Number_isInteger :: "val option \<Rightarrow> bool" where
  "Number_isInteger (Some (JNum (Fin r))) = (of_int \<lfloor>r\<rfloor> = r)"
| "Number_isInteger v = False"

fun num_le_zero :: "jsnum \<Rightarrow> bool" where
  "num_le_zero (Fin r) = (r \<le> 0)"
| "num_le_zero NegInf = True"
| "num_le_zero PosInf = False"
| "num_le_zero NaN = False"

section \<open>The driver's ObjectId\<close>

text \<open>
  \<^verbatim>\<open>ObjectId.createFromHexString(v)\<close> returns the identifier written by a string of 24
  hexadecimal digits and throws on every other argument (\<open>None\<close>).
\<close>

definition hex_digits :: "(char \<times> nat) list" where
  "hex_digits =
     [(CHR ''0'', 0), (CHR ''1'', 1), (CHR ''2'', 2), (CHR ''3'', 3), (CHR ''4'', 4),
      (CHR ''5'', 5), (CHR ''6'', 6), (CHR ''7'', 7), (CHR ''8'', 8), (CHR ''9'', 9),
      (CHR ''a'', 10), (CHR ''b'', 11), (CHR ''c'', 12), (CHR ''d'', 13), (CHR ''e'', 14),
      (CHR ''f'', 15), (CHR ''A'', 10), (CHR ''B'', 11), (CHR ''C'', 12), (CHR ''D'', 13),
      (CHR ''E'', 14), (CHR ''F'', 15)]"

definition is_hex_digit :: "char \<Rightarrow> bool" where
  "is_hex_digit c = (map_of hex_digits c \<noteq> None)"

definition hex_value :: "string \<Rightarrow> nat" where
  "hex_value s = fold (\<lambda>c a. 16 * a + (case map_of hex_digits c of Some d \<Rightarrow> d | None \<Rightarrow> 0)) s 0"

fun createFromHexString :: "val \<Rightarrow> oid option" where
  "createFromHexString (JStr s) =
     (if length s = 24 \<and> list_all is_hex_digit s then Some (hex_value s) else None)"
| "createFromHexString v = None"

section \<open>The document store\<close>

text \<open>\<^verbatim>\<open>collection.find({}).toArray()\<close>: every document, in the store's order.\<close>

definition find_all :: "doc list \<Rightarrow> doc list" where
  "find_all ds = ds"

text \<open>
  A regular expression object, as far as the handlers build one: its source, and the
  literal text it matches without regard to case. The clauses of the search filter:
  \<^verbatim>\<open>{ field: { $regex: re } }\<close> for a regular expression and
  \<^verbatim>\<open>{ field: n }\<close> for a number. A clause on a field holding an array matches when
  an element of the array matches; a clause on an absent field does not match.
  Two characters are the same without regard to case when \<open>to_lower\<close> maps them to
  the same character: the letters A to Z, and the capital letters of U+00C0 to U+00DE,
  are mapped to their small letters.
\<close>

datatype regexp = RegExp (source: string) (literal: string)

datatype clause = Regex string regexp | Eq string jsnum

definition to_lower :: "char \<Rightarrow> char" where
  "to_lower c =
     (let n = (of_char c :: nat) in
      if (65 \<le> n \<and> n \<le> 90) \<or> (192 \<le> n \<and> n \<le> 222 \<and> n \<noteq> 215) then char_of (n + 32) else c)"

fun match_here :: "string \<Rightarrow> string \<Rightarrow> bool" where
  "match_here [] s = True"
| "match_here (c # cs) [] = False"
| "match_here (c # cs) (d # ds) = (to_lower c = to_lower d \<and> match_here cs ds)"

fun regex_search :: "string \<Rightarrow> string \<Rightarrow> bool" where
  "regex_search lit [] = match_here lit []"
| "regex_search lit (d # ds) = (match_here lit (d # ds) \<or> regex_search lit ds)"

fun regex_value :: "string \<Rightarrow> val \<Rightarrow> bool" where
  "regex_value lit (JStr s) = regex_search lit s"
| "regex_value lit v = False"

fun regex_field :: "string \<Rightarrow> val option \<Rightarrow> bool" where
  "regex_field lit (Some (JArr xs)) = list_ex (regex_value lit) xs"
| "regex_field lit (Some v) = regex_value lit v"
| "regex_field lit None = False"

fun eq_field :: "jsnum \<Rightarrow> val option \<Rightarrow> bool" where
  "eq_field n (Some (JNum m)) = (m = n)"
| "eq_field n (Some (JArr xs)) = (JNum n \<in> set xs)"
| "eq_field n v = False"

fun matches :: "clause \<Rightarrow> doc \<Rightarrow> bool" where
  "matches (Regex f re) d = regex_field (literal re) (map_of d f)"
| "matches (Eq f n) d = eq_field n (map_of d f)"

text \<open>
  \<^verbatim>\<open>collection.find({ $or: cs }).toArray()\<close>. The driver writes the filter in BSON
  before it sends it, and refuses a regular expression whose source has the character
  U+0000: the call throws (\<open>None\<close>).
\<close>

fun serializable :: "clause \<Rightarrow> bool" where
  "serializable (Regex f re) = (CHR 0x00 \<notin> set (source re))"
| "serializable (Eq f n) = True"

definition find_or :: "clause list \<Rightarrow> doc list \<Rightarrow> doc list option" where
  "find_or cs ds =
     (if list_all serializable cs then Some (filter (\<lambda>d. list_ex (\<lambda>c. matches c d) cs) ds)
      else None)"

text \<open>
  \<^verbatim>\<open>{ $set: u }\<close> applied to a document, and the store's part of
  \<^verbatim>\<open>findOneAndUpdate({ _id: x }, { $set: u }, { returnDocument: 'after' })\<close>:
  the first document whose \<^verbatim>\<open>_id\<close> is \<open>x\<close> is updated in place; the store hands
  back that document after the update, or nothing when there is none, and the collection
  is as it is afterwards.
\<close>

fun set_fields :: "doc \<Rightarrow> doc \<Rightarrow> doc" where
  "set_fields [] d = d"
| "set_fields ((k, v) # u) d = set_fields u (AList.update k v d)"

fun update_first :: "val \<Rightarrow> doc \<Rightarrow> doc list \<Rightarrow> doc option \<times> doc list" where
  "update_first x u [] = (None, [])"
| "update_first x u (d # ds) =
     (if map_of d ''_id'' = Some x then (Some (set_fields u d), set_fields u d # ds)
      else (case update_first x u ds of (r, ds') \<Rightarrow> (r, d # ds')))"

text \<open>
  The driver's \<^verbatim>\<open>findOneAndUpdate\<close>: its result is the document (\<^verbatim>\<open>null\<close> when
  there is none), or, for a driver that returns the metadata, an object with the
  document as its property \<^verbatim>\<open>value\<close> (of the other properties of that object, which
  the handlers do not read, \<^verbatim>\<open>ok\<close> is kept).
\<close>

definition findOneAndUpdate :: "host \<Rightarrow> val \<Rightarrow> doc \<Rightarrow> doc list \<Rightarrow> val \<times> doc list" where
  "findOneAndUpdate h x u ds =
     (case update_first x u ds of
        (r, ds') \<Rightarrow>
          (let document = (case r of Some d \<Rightarrow> JObj d | None \<Rightarrow> JNull) in
           if resultMetadata h then JObj [(''value'', document), (''ok'', JNum (Fin 1))]
           else document,
           ds'))"

text \<open>
  \<^verbatim>\<open>result.value\<close> where the handlers go on with it, and \<open>None\<close> where
  \<^verbatim>\<open>!result || !result.value\<close> holds.
\<close>

definition result_value :: "val \<Rightarrow> val option" where
  "result_value result =
     (if \<not> truthy result then None
      else
        (case get_prop result ''value'' of
           None \<Rightarrow> None
         | Some v \<Rightarrow> if \<not> truthy v then None else Some v))"

text \<open>
  \<^verbatim>\<open>orders.insertOne(doc)\<close>: the driver gives the document a fresh \<^verbatim>\<open>_id\<close> and the
  store appends it; the result is the identifier (\<^verbatim>\<open>insertedId\<close>).
\<close>

definition insertOne :: "doc \<Rightarrow> store \<Rightarrow> oid \<times> store" where
  "insertOne d s =
     (next_oid s,
      s\<lparr>orders := orders s @ [(''_id'', JOid (next_oid s)) # d], next_oid := Suc (next_oid s)\<rparr>)"

section \<open>GET /lessons\<close>

definition get_lessons :: "store \<Rightarrow> response" where
  "get_lessons s = json_docs (find_all (lessons s))"

section \<open>GET /search\<close>

text \<open>
  \<^verbatim>\<open>q.replace(/[.*+?^${}()|[\]\\]/g, '\\$&')\<close>: a backslash is put before each of the
  fourteen characters of the handler's class.
\<close>

definition escape_class :: "char list" where
  "escape_class = ''.*+?^${}()|[]'' @ [CHR 0x5C]"

definition escape_regexp :: "string \<Rightarrow> string" where
  "escape_regexp q =
     concat (map (\<lambda>c. if c \<in> set escape_class then [CHR 0x5C, c] else [c]) q)"

text \<open>
  The syntax characters of the pattern language, as the language defines them
  (\<^verbatim>\<open>^ $ \ . * + ? ( ) [ ] { } |\<close>), independently of the handler. Outside a class,
  every other character of a pattern stands for itself, and a backslash before a syntax
  character stands for that character.
\<close>

definition syntax_characters :: "char list" where
  "syntax_characters = ''^$'' @ [CHR 0x5C] @ ''.*+?()[]{}|''"

text \<open>
  The literal text a pattern matches, when the pattern is a sequence of ordinary
  characters and escaped syntax characters. A pattern that ends in a lone backslash is a
  syntax error; a pattern with an unescaped syntax character, or with a backslash before
  an ordinary character, has an operator or a class, to which this model gives no
  meaning: it is refused as well (\<open>None\<close>).
\<close>

fun pattern_literal :: "string \<Rightarrow> string option" where
  "pattern_literal [] = Some []"
| "pattern_literal [c] = (if c \<in> set syntax_characters then None else Some [c])"
| "pattern_literal (c # d # ds) =
     (if c = CHR 0x5C then
        (if d \<in> set syntax_characters then map_option ((#) d) (pattern_literal ds) else None)
      else if c \<in> set syntax_characters then None
      else map_option ((#) c) (pattern_literal (d # ds)))"

text \<open>\<^verbatim>\<open>new RegExp(p, 'i')\<close>; \<open>None\<close> when the constructor throws.\<close>

definition new_RegExp :: "string \<Rightarrow> regexp option" where
  "new_RegExp p = map_option (RegExp p) (pattern_literal p)"

text \<open>
  The handler; \<open>qp\<close> is \<^verbatim>\<open>req.query.q\<close>, a string or absent. An exception thrown in
  the \<^verbatim>\<open>try\<close> block is answered by the \<^verbatim>\<open>catch\<close> block with status 500.
\<close>

definition search :: "host \<Rightarrow> store \<Rightarrow> string option \<Rightarrow> response" where
  "search h s qp =
     (let q = trim (case qp of None \<Rightarrow> [] | Some x \<Rightarrow> if x = [] then [] else x) in
      if q = [] then json_docs (find_all (lessons s))
      else
        (case new_RegExp (escape_regexp q) of
           None \<Rightarrow> error_json 500 ''Search failed''
         | Some regex \<Rightarrow>
             (let maybeNum = Number h q;
                  isNum = (maybeNum \<noteq> NaN);
                  or = [Regex ''subject'' regex, Regex ''location'' regex]
                       @ (if isNum then [Eq ''price'' maybeNum, Eq ''spaces'' maybeNum] else [])
              in case find_or or (lessons s) of
                   None \<Rightarrow> error_json 500 ''Search failed''
                 | Some results \<Rightarrow> json_docs results)))"

section \<open>POST /orders\<close>

text \<open>
  One pass of the loop over \<^verbatim>\<open>items\<close>: it goes on to the next item, returns a
  response, or throws. Reading a property of \<^verbatim>\<open>null\<close> throws, and so does
  \<^verbatim>\<open>ObjectId.createFromHexString\<close> on an argument it does not accept; when it
  returns, its result is an ObjectId, which \<^verbatim>\<open>Number.isNaN\<close> is applied to.
  \<^verbatim>\<open>it.quantity <= 0\<close> is evaluated only on an integer.
\<close>

datatype step = Continue | Respond response | Thrown

definition check_item :: "val \<Rightarrow> step" where
  "check_item it =
     (if it = JNull then Thrown
      else
        (case get_prop it ''lessonId'' of
           None \<Rightarrow> Respond (error_json 400 ''Invalid lessonId'')
         | Some lessonId \<Rightarrow>
             if \<not> truthy lessonId then Respond (error_json 400 ''Invalid lessonId'')
             else
               (case createFromHexString lessonId of
                  None \<Rightarrow> Thrown
                | Some i \<Rightarrow>
                    if Number_isNaN (JOid i) then Respond (error_json 400 ''Invalid lessonId'')
                    else if \<not> Number_isInteger (get_prop it ''quantity'')
                            \<or> (case get_prop it ''quantity'' of
                                  Some (JNum n) \<Rightarrow> num_le_zero n
                                | _ \<Rightarrow> False)
                    then Respond (error_json 400 ''Invalid quantity'')
                    else Continue)))"

fun check_items :: "val list \<Rightarrow> step" where
  "check_items [] = Continue"
| "check_items (it # its) =
     (case check_item it of Continue \<Rightarrow> check_items its | r \<Rightarrow> r)"

text \<open>
  The handler; \<open>now\<close> is the clock read by \<^verbatim>\<open>new Date()\<close>, \<open>req_body\<close> is
  \<^verbatim>\<open>req.body\<close>. A property that is \<^verbatim>\<open>undefined\<close> (\<open>None\<close>) is falsy. The
  handler returns the response and the store afterwards.
\<close>

definition post_orders :: "host \<Rightarrow> nat \<Rightarrow> store \<Rightarrow> val \<Rightarrow> response \<times> store" where
  "post_orders h now s req_body =
     (let b = (if truthy req_body then req_body else JObj []) in
      case get_prop b ''name'' of
        None \<Rightarrow> (error_json 400 ''Invalid name'', s)
      | Some name \<Rightarrow>
          if \<not> truthy name \<or> \<not> name_re_test h name then (error_json 400 ''Invalid name'', s)
          else
            (case get_prop b ''phone'' of
               None \<Rightarrow> (error_json 400 ''Invalid phone'', s)
             | Some phone \<Rightarrow>
                 if \<not> truthy phone \<or> \<not> phone_re_test h phone
                 then (error_json 400 ''Invalid phone'', s)
                 else
                   (case get_prop b ''items'' of
                      Some (JArr items) \<Rightarrow>
                        if length items = 0 then (error_json 400 ''No items in order'', s)
                        else
                          (case check_items items of
                             Respond r \<Rightarrow> (r, s)
                           | Thrown \<Rightarrow> (error_json 500 ''Failed to create order'', s)
                           | Continue \<Rightarrow>
                               (let orderDoc = [(''name'', name), (''phone'', phone),
                                                (''items'', JArr items),
                                                (''createdAt'', JDate now)];
                                    (insertedId, s') = insertOne orderDoc s
                                in (Response 201 (JObj ((''_id'', JOid insertedId) # orderDoc)),
                                    s')))
                    | _ \<Rightarrow> (error_json 400 ''No items in order'', s))))"

section \<open>PUT /lessons/:id\<close>

definition allowed :: "string list" where
  "allowed = [''subject'', ''location'', ''price'', ''spaces'', ''image'']"

text \<open>
  The loop that fills \<^verbatim>\<open>set\<close> (here \<open>fields\<close>): for each allow-listed name, in
  order, the body's own property of that name, when it has one.
\<close>

fun collect :: "string list \<Rightarrow> doc \<Rightarrow> doc" where
  "collect [] b = []"
| "collect (k # ks) b =
     (case map_of b k of Some v \<Rightarrow> (k, v) # collect ks b | None \<Rightarrow> collect ks b)"

text \<open>
  \<^verbatim>\<open>Object.prototype.hasOwnProperty.call(req.body, k)\<close> and \<^verbatim>\<open>req.body[k]\<close> for
  the allow-listed names: the call throws when \<^verbatim>\<open>req.body\<close> is \<^verbatim>\<open>undefined\<close>
  (a request without a body, where the body parser leaves none) or \<^verbatim>\<open>null\<close>
  (\<open>None\<close>); an object has its properties; an array or a primitive has none of the
  allow-listed names.
\<close>

fun own_properties :: "val option \<Rightarrow> doc option" where
  "own_properties None = None"
| "own_properties (Some JNull) = None"
| "own_properties (Some (JObj kvs)) = Some kvs"
| "own_properties (Some v) = Some []"

text \<open>
  The handler in its first version; \<open>rid\<close> is \<^verbatim>\<open>req.params.id\<close> and \<open>req_body\<close>
  is \<^verbatim>\<open>req.body\<close>. An exception thrown in the \<^verbatim>\<open>try\<close> block is answered by the
  \<^verbatim>\<open>catch\<close> block with status 500.
\<close>

definition put_lessons_id ::
  "host \<Rightarrow> store \<Rightarrow> string \<Rightarrow> val option \<Rightarrow> response \<times> store" where
  "put_lessons_id h s rid req_body =
     (case ObjectId h rid of
        None \<Rightarrow> (error_json 400 ''Invalid id'', s)
      | Some oid \<Rightarrow>
          (case own_properties req_body of
             None \<Rightarrow> (error_json 500 ''Failed to update lesson'', s)
           | Some props \<Rightarrow>
               (let fields = collect allowed props in
                if length fields = 0 then (error_json 400 ''No valid fields to update'', s)
                else
                  (case findOneAndUpdate h (JOid oid) fields (lessons s) of
                     (result, ls) \<Rightarrow>
                       (case result_value result of
                          None \<Rightarrow> (error_json 404 ''Lesson not found'', s\<lparr>lessons := ls\<rparr>)
                        | Some v \<Rightarrow> (Response 200 v, s\<lparr>lessons := ls\<rparr>))))))"

text \<open>
  The handler in its second version: when the first call gives no
  \<^verbatim>\<open>result.value\<close>, the update is tried again on the document whose \<^verbatim>\<open>_id\<close> is
  the string itself.
\<close>

definition put_lessons_id_v2 ::
  "host \<Rightarrow> store \<Rightarrow> string \<Rightarrow> val option \<Rightarrow> response \<times> store" where
  "put_lessons_id_v2 h s rid req_body =
     (case ObjectId h rid of
        None \<Rightarrow> (error_json 400 ''Invalid id'', s)
      | Some oid \<Rightarrow>
          (case own_properties req_body of
             None \<Rightarrow> (error_json 500 ''Failed to update lesson'', s)
           | Some props \<Rightarrow>
               (let fields = collect allowed props in
                if length fields = 0 then (error_json 400 ''No valid fields to update'', s)
                else
                  (case findOneAndUpdate h (JOid oid) fields (lessons s) of
                     (result, ls) \<Rightarrow>
                       (case result_value result of
                          Some v \<Rightarrow> (Response 200 v, s\<lparr>lessons := ls\<rparr>)
                        | None \<Rightarrow>
                            (case findOneAndUpdate h (JStr rid) fields ls of
                               (result', ls') \<Rightarrow>
                                 (case result_value result' of
                                    Some v \<Rightarrow> (Response 200 v, s\<lparr>lessons := ls'\<rparr>)
                                  | None \<Rightarrow>
                                      (error_json 404 ''Lesson not found'',
                                       s\<lparr>lessons := ls'\<rparr>))))))))"

section \<open>The specification's vocabulary\<close>

text \<open>
  The words of the specification, written down independently of the handlers: a text
  contains another as a substring without regard to case; a field of a lesson contains a
  text, or equals a number; and the search criterion for a query text \<open>t\<close>. The
  data model has a text or a number in each of the four searched fields;
  \<open>no_list_field\<close> says of a document that none of the four holds a list.
\<close>

definition contains_ci :: "string \<Rightarrow> string \<Rightarrow> bool" where
  "contains_ci t s = (\<exists>u v w. s = u @ v @ w \<and> map to_lower v = map to_lower t)"

definition searched_fields :: "string list" where
  "searched_fields = [''subject'', ''location'', ''price'', ''spaces'']"

definition no_list_field :: "doc \<Rightarrow> bool" where
  "no_list_field d =
     list_all (\<lambda>f. case map_of d f of Some (JArr xs) \<Rightarrow> False | _ \<Rightarrow> True) searched_fields"

definition field_contains :: "string \<Rightarrow> doc \<Rightarrow> string \<Rightarrow> bool" where
  "field_contains t d f = (\<exists>x. map_of d f = Some (JStr x) \<and> contains_ci t x)"

definition field_equals :: "jsnum \<Rightarrow> doc \<Rightarrow> string \<Rightarrow> bool" where
  "field_equals n d f = (map_of d f = Some (JNum n))"

definition search_criterion :: "host \<Rightarrow> string \<Rightarrow> doc \<Rightarrow> bool" where
  "search_criterion h t d =
     (field_contains t d ''subject'' \<or> field_contains t d ''location''
      \<or> (Number h t \<noteq> NaN
          \<and> (field_equals (Number h t) d ''price'' \<or> field_equals (Number h t) d ''spaces'')))"

text \<open>
  The first lesson of a collection whose \<^verbatim>\<open>_id\<close> is a given value, and a request
  body of \<^verbatim>\<open>POST /orders\<close> that passes the checks on its name, its phone and its
  list of items.
\<close>

definition lookup_id :: "val \<Rightarrow> doc list \<Rightarrow> doc option" where
  "lookup_id x ds = find (\<lambda>d. map_of d ''_id'' = Some x) ds"

definition passes_checks :: "host \<Rightarrow> val \<Rightarrow> val list \<Rightarrow> bool" where
  "passes_checks h b items =
     ((case get_prop b ''name'' of
         Some name \<Rightarrow> truthy name \<and> name_re_test h name
       | None \<Rightarrow> False)
      \<and> (case get_prop b ''phone'' of
            Some phone \<Rightarrow> truthy phone \<and> phone_re_test h phone
          | None \<Rightarrow> False)
      \<and> get_prop b ''items'' = Some (JArr items) \<and> items \<noteq> [])"

section \<open>Example data\<close>

text \<open>
  A host for the examples: \<open>Number\<close> reads an unsigned decimal integer literal and is
  \<open>NaN\<close> on every other string, \<open>NumberToString\<close> writes the three numbers that are
  not finite (no example converts a finite one), and \<^verbatim>\<open>new ObjectId\<close> accepts the
  strings of 24 hexadecimal digits. On the strings the examples use, Node and the driver
  give these values. Its \<^verbatim>\<open>findOneAndUpdate\<close> returns the document, as the driver
  does from version 6; \<open>legacy_host\<close> is the same host with a driver that returns the
  metadata.
\<close>

definition dec_value :: "string \<Rightarrow> nat" where
  "dec_value s = fold (\<lambda>c a. 10 * a + (case map_of hex_digits c of Some d \<Rightarrow> d | None \<Rightarrow> 0)) s 0"

definition example_host :: host where
  "example_host =
     \<lparr> Number = (\<lambda>s. if s \<noteq> [] \<and> list_all is_digit s then Fin (of_nat (dec_value s)) else NaN),
       NumberToString = (\<lambda>n. case n of PosInf \<Rightarrow> ''Infinity'' | NegInf \<Rightarrow> ''-Infinity''
                                 | NaN \<Rightarrow> ''NaN'' | Fin r \<Rightarrow> []),
       ObjectId = (\<lambda>s. createFromHexString (JStr s)),
       resultMetadata = False \<rparr>"

definition legacy_host :: host where
  "legacy_host = example_host\<lparr> resultMetadata := True \<rparr>"

text \<open>Three of the lessons of \<^verbatim>\<open>seed.js\<close>, with the identifiers 1, 2 and 3.\<close>

definition lesson_math :: doc where
  "lesson_math =
     [(''_id'', JOid 1), (''subject'', JStr ''Math''), (''location'', JStr ''Hendon''),
      (''price'', JNum (Fin 100)), (''spaces'', JNum (Fin 5)), (''image'', JNull)]"

definition lesson_science :: doc where
  "lesson_science =
     [(''_id'', JOid 2), (''subject'', JStr ''Science''), (''location'', JStr ''Colindale''),
      (''price'', JNum (Fin 90)), (''spaces'', JNum (Fin 5)), (''image'', JNull)]"

definition lesson_english :: doc where
  "lesson_english =
     [(''_id'', JOid 3), (''subject'', JStr ''English''), (''location'', JStr ''Brent Cross''),
      (''price'', JNum (Fin 80)), (''spaces'', JNum (Fin 5)), (''image'', JNull)]"

definition seeded :: store where
  "seeded = \<lparr> lessons = [lesson_math, lesson_science, lesson_english], orders = [], next_oid = 4 \<rparr>"

text \<open>
  A store whose one lesson has a list of two texts as its subject, as
  \<^verbatim>\<open>PUT /lessons/:id\<close> with the body \<^verbatim>\<open>{subject: ["Math", "Art"]}\<close> leaves it.
\<close>

definition lesson_listed :: doc where
  "lesson_listed =
     [(''_id'', JOid 5), (''subject'', JArr [JStr ''Math'', JStr ''Art'']),
      (''location'', JStr ''Camden''), (''price'', JNum (Fin 70)), (''spaces'', JNum (Fin 5)),
      (''image'', JNull)]"

definition listed :: store where
  "listed = \<lparr> lessons = [lesson_listed], orders = [], next_oid = 6 \<rparr>"

definition id_math :: string where
  "id_math = ''000000000000000000000001''"

definition id_absent :: string where
  "id_absent = ''00000000000000000000000a''"

text \<open>An order for two places in the lesson with identifier 1.\<close>

definition order_body :: val where
  "order_body =
     JObj [(''name'', JStr ''John Doe''), (''phone'', JStr ''0123456789''),
           (''items'', JArr [JObj [(''lessonId'', JStr id_math), (''quantity'', JNum (Fin 2))]])]"

text \<open>The same order with an item whose \<^verbatim>\<open>lessonId\<close> is not an identifier.\<close>

definition unparsable_body :: val where
  "unparsable_body =
     JObj [(''name'', JStr ''John Doe''), (''phone'', JStr ''0123456789''),
           (''items'', JArr [JObj [(''lessonId'', JStr ''xyz''), (''quantity'', JNum (Fin 1))]])]"

definition second_item_body :: val where
  "second_item_body =
     JObj [(''name'', JStr ''John Doe''), (''phone'', JStr ''0123456789''),
           (''items'',
            JArr [JObj [(''lessonId'', JStr id_math), (''quantity'', JNum (Fin 2))],
                  JObj [(''lessonId'', JStr ''not-an-id''), (''quantity'', JNum (Fin 0))]])]"

definition bad_name_body :: val where
  "bad_name_body =
     JObj [(''name'', JStr ''John123''), (''phone'', JStr ''0123456789''),
           (''items'', JArr [JObj [(''lessonId'', JStr ''xyz''), (''quantity'', JNum (Fin 1))]])]"

section \<open>Facts about the primitives\<close>

subsection \<open>Escaping and matching\<close>

text \<open>The handler's class is the set of the syntax characters of the language.\<close>

lemma escape_class_syntax: "set escape_class = set syntax_characters"
  by (auto simp: escape_class_def syntax_characters_def)

lemma pattern_literal_plain:
  "c \<notin> set syntax_characters \<Longrightarrow>
   pattern_literal (c # p) = map_option ((#) c) (pattern_literal p)"
  by (cases p) (auto simp: syntax_characters_def)

lemma pattern_literal_escaped:
  "c \<in> set syntax_characters \<Longrightarrow>
   pattern_literal (CHR 0x5C # c # p) = map_option ((#) c) (pattern_literal p)"
  by simp

text \<open>An escaped query is a pattern for the query itself, whatever characters it has.\<close>

lemma pattern_literal_escape: "pattern_literal (escape_regexp q) = Some q"
proof (induction q)
  case Nil
  show ?case by (simp add: escape_regexp_def)
next
  case (Cons c q)
  have step: "escape_regexp (c # q) =
      (if c \<in> set escape_class then CHR 0x5C # c # escape_regexp q else c # escape_regexp q)"
    by (simp add: escape_regexp_def)
  show ?case
  proof (cases "c \<in> set escape_class")
    case True
    then have "c \<in> set syntax_characters" by (simp add: escape_class_syntax)
    then show ?thesis using True Cons.IH step pattern_literal_escaped by simp
  next
    case False
    then have "c \<notin> set syntax_characters" by (simp add: escape_class_syntax)
    then show ?thesis using False Cons.IH step pattern_literal_plain by simp
  qed
qed

lemma new_RegExp_escape: "new_RegExp (escape_regexp q) = Some (RegExp (escape_regexp q) q)"
  by (simp add: new_RegExp_def pattern_literal_escape)

text \<open>Escaping neither brings the character U+0000 into a query nor takes it out.\<close>

lemma escape_regexp_nul: "CHR 0x00 \<in> set (escape_regexp q) \<longleftrightarrow> CHR 0x00 \<in> set q"
  by (induction q) (auto simp: escape_regexp_def)

lemma match_here_iff:
  "match_here t s \<longleftrightarrow> (\<exists>v w. s = v @ w \<and> map to_lower v = map to_lower t)"
proof (induction t s rule: match_here.induct)
  case (1 s)
  show ?case by simp
next
  case (2 c cs)
  show ?case by simp
next
  case (3 c cs d ds)
  show ?case
  proof
    assume "match_here (c # cs) (d # ds)"
    then have cd: "to_lower c = to_lower d" and "match_here cs ds" by simp_all
    then obtain v w where "ds = v @ w" "map to_lower v = map to_lower cs" using 3 by auto
    then have "d # ds = (d # v) @ w \<and> map to_lower (d # v) = map to_lower (c # cs)"
      using cd by simp
    then show "\<exists>v w. d # ds = v @ w \<and> map to_lower v = map to_lower (c # cs)" by blast
  next
    assume "\<exists>v w. d # ds = v @ w \<and> map to_lower v = map to_lower (c # cs)"
    then obtain v w where vw: "d # ds = v @ w" "map to_lower v = map to_lower (c # cs)" by blast
    then obtain e v' where v: "v = e # v'" by (cases v) auto
    with vw have "e = d" "ds = v' @ w" "to_lower e = to_lower c" "map to_lower v' = map to_lower cs"
      by auto
    then show "match_here (c # cs) (d # ds)" using 3 by auto
  qed
qed

text \<open>The search of the expression in a text finds exactly the substrings up to case.\<close>

lemma regex_search_iff: "regex_search t s \<longleftrightarrow> contains_ci t s"
proof (induction s)
  case Nil
  show ?case by (auto simp: contains_ci_def match_here_iff)
next
  case (Cons d ds)
  show ?case
  proof
    assume "regex_search t (d # ds)"
    then consider "match_here t (d # ds)" | "regex_search t ds" by auto
    then show "contains_ci t (d # ds)"
    proof cases
      case 1
      then obtain v w where "d # ds = [] @ v @ w" "map to_lower v = map to_lower t"
        by (auto simp: match_here_iff)
      then show ?thesis unfolding contains_ci_def by blast
    next
      case 2
      then obtain u v w where "ds = u @ v @ w" "map to_lower v = map to_lower t"
        using Cons by (auto simp: contains_ci_def)
      then have "d # ds = (d # u) @ v @ w \<and> map to_lower v = map to_lower t" by simp
      then show ?thesis unfolding contains_ci_def by blast
    qed
  next
    assume "contains_ci t (d # ds)"
    then obtain u v w where uvw: "d # ds = u @ v @ w" "map to_lower v = map to_lower t"
      unfolding contains_ci_def by blast
    show "regex_search t (d # ds)"
    proof (cases u)
      case Nil
      then have "match_here t (d # ds)" using uvw by (auto simp: match_here_iff)
      then show ?thesis by simp
    next
      case (Cons e u')
      then have "ds = u' @ v @ w" using uvw by simp
      then have "contains_ci t ds" using uvw(2) unfolding contains_ci_def by blast
      then show ?thesis using Cons.IH by simp
    qed
  qed
qed

subsection \<open>Trimming\<close>

lemma trim_spaces:
  assumes "list_all is_space q"
  shows "trim q = []"
proof -
  have d: "dropWhile is_space q = []" using assms by (simp add: list_all_iff)
  show ?thesis unfolding trim_def d by simp
qed

lemma trim_pad_right:
  assumes "list_all is_space r"
  shows "trim (q @ r) = trim q"
proof (cases "list_all is_space q")
  case True
  then have "list_all is_space (q @ r)" using assms by simp
  then show ?thesis using True by (simp only: trim_spaces)
next
  case False
  then obtain x where x: "x \<in> set q" "\<not> is_space x" by (auto simp: list_all_iff)
  have "dropWhile is_space (q @ r) = dropWhile is_space q @ r"
    using x by (rule dropWhile_append1)
  moreover have "dropWhile is_space (rev r @ rev (dropWhile is_space q))
      = dropWhile is_space (rev (dropWhile is_space q))"
    using assms by (intro dropWhile_append2) (simp add: list_all_iff)
  ultimately show ?thesis by (simp add: trim_def)
qed

lemma trim_pad_left:
  assumes "list_all is_space l"
  shows "trim (l @ q) = trim q"
proof -
  have "dropWhile is_space (l @ q) = dropWhile is_space q"
    using assms by (intro dropWhile_append2) (simp add: list_all_iff)
  then show ?thesis by (simp add: trim_def)
qed

lemma trim_pad:
  "list_all is_space l \<Longrightarrow> list_all is_space r \<Longrightarrow> trim (l @ q @ r) = trim q"
  by (simp add: trim_pad_left trim_pad_right)

lemma trim_idem: "trim (trim q) = trim q"
proof (cases "dropWhile is_space q")
  case Nil
  have t: "trim q = []" unfolding trim_def Nil by simp
  have "trim [] = []" unfolding trim_def by simp
  then show ?thesis unfolding t .
next
  case (Cons x d)
  then have nx: "\<not> is_space x" using hd_dropWhile [of is_space q] by auto
  have "dropWhile is_space (rev d @ [x]) = dropWhile is_space (rev d) @ [x]"
    using nx by (simp add: dropWhile_append3)
  then have t: "trim q = x # rev (dropWhile is_space (rev d))"
    using Cons by (simp add: trim_def)
  have "dropWhile is_space (trim q) = trim q" using nx t by simp
  then have "trim (trim q) = rev (dropWhile is_space (rev (trim q)))"
    by (simp add: trim_def)
  also have "rev (trim q) = dropWhile is_space (rev (dropWhile is_space q))"
    by (simp add: trim_def)
  finally show ?thesis by (simp add: trim_def)
qed

lemma set_trim: "set (trim q) \<subseteq> set q"
proof -
  have "set (trim q) \<subseteq> set (dropWhile is_space q)"
    unfolding trim_def using set_dropWhileD [of _ is_space "rev (dropWhile is_space q)"] by auto
  then show ?thesis using set_dropWhileD [of _ is_space q] by auto
qed

lemma dropWhile_keeps: "x \<in> set xs \<Longrightarrow> \<not> P x \<Longrightarrow> x \<in> set (dropWhile P xs)"
  by (induction xs) auto

lemma trim_keeps: "x \<in> set q \<Longrightarrow> \<not> is_space x \<Longrightarrow> x \<in> set (trim q)"
  unfolding trim_def by (simp add: dropWhile_keeps)

lemma trim_nul: "CHR 0x00 \<in> set (trim q) \<longleftrightarrow> CHR 0x00 \<in> set q"
proof -
  have "\<not> is_space (CHR 0x00)" by (simp add: is_space_def)
  then show ?thesis using trim_keeps [of "CHR 0x00" q] set_trim [of q] by auto
qed

subsection \<open>The search handler, unfolded\<close>

lemma search_unfold:
  "search h s (Some q) =
     (if trim q = [] then get_lessons s
      else if CHR 0x00 \<in> set (trim q) then error_json 500 ''Search failed''
      else json_docs (filter (\<lambda>d. list_ex (\<lambda>c. matches c d)
             ([Regex ''subject'' (RegExp (escape_regexp (trim q)) (trim q)),
               Regex ''location'' (RegExp (escape_regexp (trim q)) (trim q))]
              @ (if Number h (trim q) \<noteq> NaN
                 then [Eq ''price'' (Number h (trim q)), Eq ''spaces'' (Number h (trim q))]
                 else [])))
             (lessons s)))"
proof -
  have "trim (if q = [] then [] else q) = trim q" by simp
  then show ?thesis
    by (simp add: search_def get_lessons_def find_all_def new_RegExp_escape find_or_def
          escape_regexp_nul Let_def)
qed

lemma search_absent: "search h s None = get_lessons s"
  by (simp add: search_def get_lessons_def trim_def)

lemma regex_field_scalar:
  assumes "case v of Some (JArr xs) \<Rightarrow> False | _ \<Rightarrow> True"
  shows "regex_field t v \<longleftrightarrow> (\<exists>x. v = Some (JStr x) \<and> contains_ci t x)"
proof (cases v)
  case None
  then show ?thesis by simp
next
  case (Some a)
  then show ?thesis using assms by (cases a) (simp_all add: regex_search_iff)
qed

lemma eq_field_scalar:
  assumes "case v of Some (JArr xs) \<Rightarrow> False | _ \<Rightarrow> True"
  shows "eq_field n v \<longleftrightarrow> v = Some (JNum n)"
proof (cases v)
  case None
  then show ?thesis by simp
next
  case (Some a)
  then show ?thesis using assms by (cases a) auto
qed

lemma matches_criterion:
  assumes "no_list_field d"
  shows "list_ex (\<lambda>c. matches c d)
           ([Regex ''subject'' (RegExp p t), Regex ''location'' (RegExp p t)]
            @ (if Number h t \<noteq> NaN then [Eq ''price'' (Number h t), Eq ''spaces'' (Number h t)]
               else []))
         \<longleftrightarrow> search_criterion h t d"
proof -
  have f: "case map_of d ''subject'' of Some (JArr xs) \<Rightarrow> False | _ \<Rightarrow> True"
      "case map_of d ''location'' of Some (JArr xs) \<Rightarrow> False | _ \<Rightarrow> True"
      "case map_of d ''price'' of Some (JArr xs) \<Rightarrow> False | _ \<Rightarrow> True"
      "case map_of d ''spaces'' of Some (JArr xs) \<Rightarrow> False | _ \<Rightarrow> True"
    using assms by (simp_all add: no_list_field_def searched_fields_def)
  show ?thesis
    by (simp add: search_criterion_def field_contains_def field_equals_def
          regex_field_scalar [OF f(1)] regex_field_scalar [OF f(2)]
          eq_field_scalar [OF f(3)] eq_field_scalar [OF f(4)])
qed

lemma filter_criterion:
  assumes "list_all no_list_field ds"
  shows "filter (\<lambda>d. list_ex (\<lambda>c. matches c d)
          ([Regex ''subject'' (RegExp p t), Regex ''location'' (RegExp p t)]
           @ (if Number h t \<noteq> NaN then [Eq ''price'' (Number h t), Eq ''spaces'' (Number h t)]
              else [])))
          ds
        = filter (search_criterion h t) ds"
proof (rule filter_cong [OF refl])
  fix d assume "d \<in> set ds"
  then have "no_list_field d" using assms by (simp add: list_all_iff)
  then show "list_ex (\<lambda>c. matches c d)
         ([Regex ''subject'' (RegExp p t), Regex ''location'' (RegExp p t)]
          @ (if Number h t \<noteq> NaN then [Eq ''price'' (Number h t), Eq ''spaces'' (Number h t)]
             else []))
       = search_criterion h t d"
    by (rule matches_criterion)
qed

subsection \<open>The loop over the items\<close>

lemma check_item_status: "check_item it = Respond r \<Longrightarrow> status r = 400"
  by (auto simp: check_item_def error_json_def split: if_splits option.splits)

lemma check_items_status: "check_items its = Respond r \<Longrightarrow> status r = 400"
proof (induction its)
  case Nil
  then show ?case by simp
next
  case (Cons it its)
  then show ?case by (cases "check_item it") (auto dest: check_item_status)
qed

lemma check_items_append:
  "check_items (pre @ rest) = (case check_items pre of Continue \<Rightarrow> check_items rest | r \<Rightarrow> r)"
  by (induction pre) (auto split: step.splits)

text \<open>
  The loop answers 400 \<^verbatim>\<open>Invalid lessonId\<close> for exactly the items, other than
  \<^verbatim>\<open>null\<close>, whose \<^verbatim>\<open>lessonId\<close> is absent or falsy.
\<close>

lemma check_item_invalid_lessonId_iff:
  "check_item it = Respond (error_json 400 ''Invalid lessonId'')
     \<longleftrightarrow> it \<noteq> JNull \<and> falsy (get_prop it ''lessonId'')"
  by (auto simp: check_item_def error_json_def split: option.splits)

text \<open>The first item that does not pass decides the outcome of the loop.\<close>

lemma check_items_first:
  "check_items its =
     (case find (\<lambda>it. check_item it \<noteq> Continue) its of
        None \<Rightarrow> Continue
      | Some it \<Rightarrow> check_item it)"
  by (induction its) (auto split: step.splits)

lemma passes_checks_truthy: "passes_checks h b items \<Longrightarrow> truthy b"
  by (cases b) (auto simp: passes_checks_def)

text \<open>
  The order of the checks before the loop: the name decides first, then the phone, then
  the list of items; a body that passes the three is answered by the loop.
\<close>

lemma post_orders_name_first:
  "(case get_prop b ''name'' of Some name \<Rightarrow> \<not> truthy name \<or> \<not> name_re_test h name
    | None \<Rightarrow> True) \<Longrightarrow>
   truthy b \<Longrightarrow> post_orders h now s b = (error_json 400 ''Invalid name'', s)"
  by (auto simp: post_orders_def split: option.splits)

lemma post_orders_phone_second:
  "get_prop b ''name'' = Some name \<Longrightarrow> truthy name \<Longrightarrow> name_re_test h name \<Longrightarrow>
   (case get_prop b ''phone'' of Some phone \<Rightarrow> \<not> truthy phone \<or> \<not> phone_re_test h phone
    | None \<Rightarrow> True) \<Longrightarrow>
   post_orders h now s b = (error_json 400 ''Invalid phone'', s)"
  by (cases b) (auto simp: post_orders_def split: option.splits)

lemma post_orders_items_third:
  "get_prop b ''name'' = Some name \<Longrightarrow> truthy name \<Longrightarrow> name_re_test h name \<Longrightarrow>
   get_prop b ''phone'' = Some phone \<Longrightarrow> truthy phone \<Longrightarrow> phone_re_test h phone \<Longrightarrow>
   (case get_prop b ''items'' of Some (JArr items) \<Rightarrow> items = [] | _ \<Rightarrow> True) \<Longrightarrow>
   post_orders h now s b = (error_json 400 ''No items in order'', s)"
  by (cases b) (auto simp: post_orders_def split: option.splits val.splits)

lemma post_orders_checked:
  assumes "passes_checks h b items"
    and "get_prop b ''name'' = Some name" and "get_prop b ''phone'' = Some phone"
  shows "post_orders h now s b =
     (case check_items items of
        Respond r \<Rightarrow> (r, s)
      | Thrown \<Rightarrow> (error_json 500 ''Failed to create order'', s)
      | Continue \<Rightarrow>
          (Response 201
             (JObj [(''_id'', JOid (next_oid s)), (''name'', name), (''phone'', phone),
                    (''items'', JArr items), (''createdAt'', JDate now)]),
           s\<lparr>orders := orders s @
                 [[(''_id'', JOid (next_oid s)), (''name'', name), (''phone'', phone),
                   (''items'', JArr items), (''createdAt'', JDate now)]],
              next_oid := Suc (next_oid s)\<rparr>))"
  using assms passes_checks_truthy [OF assms(1)]
  unfolding post_orders_def Let_def insertOne_def passes_checks_def
  by (auto split: option.splits step.splits)

lemma post_orders_thrown:
  assumes "passes_checks h b items" and "check_items items = Thrown"
  shows "post_orders h now s b = (error_json 500 ''Failed to create order'', s)"
proof -
  obtain name phone where "get_prop b ''name'' = Some name" "get_prop b ''phone'' = Some phone"
    using assms(1) by (auto simp: passes_checks_def split: option.splits)
  then show ?thesis using post_orders_checked [OF assms(1)] assms(2) by simp
qed

text \<open>The handler either leaves the store as it is, or answers 201 and appends one order.\<close>

lemma post_orders_cases:
  "post_orders h now s b = (r, s') \<Longrightarrow>
     (s' = s \<and> status r \<noteq> 201) \<or>
     (\<exists>d. r = Response 201 (JObj ((''_id'', JOid (next_oid s)) # d))
          \<and> s' = s\<lparr>orders := orders s @ [(''_id'', JOid (next_oid s)) # d],
                    next_oid := Suc (next_oid s)\<rparr>)"
  unfolding post_orders_def Let_def insertOne_def
  by (auto simp: error_json_def dest: check_items_status
           split: option.splits val.splits step.splits if_splits)

lemma post_orders_again:
  assumes "status (fst (post_orders h t1 s b)) = 201"
  shows "\<exists>i1 d1 s1 i2 d2 s2.
       post_orders h t1 s b = (Response 201 (JObj ((''_id'', JOid i1) # d1)), s1)
     \<and> post_orders h t2 s1 b = (Response 201 (JObj ((''_id'', JOid i2) # d2)), s2)
     \<and> i1 \<noteq> i2
     \<and> orders s2 = orders s @ [(''_id'', JOid i1) # d1, (''_id'', JOid i2) # d2]"
  using assms
  unfolding post_orders_def Let_def insertOne_def
  by (auto simp: error_json_def dest: check_items_status
           split: option.splits val.splits step.splits if_splits)

subsection \<open>The update of a lesson\<close>

lemma collect_map_of:
  "map_of (collect ks b) k = (if k \<in> set ks then map_of b k else None)"
  by (induction ks) (auto split: option.splits)

lemma collect_keys: "map fst (collect ks b) = filter (\<lambda>k. map_of b k \<noteq> None) ks"
  by (induction ks) (auto split: option.splits)

lemma collect_distinct: "distinct ks \<Longrightarrow> distinct (map fst (collect ks b))"
  by (simp add: collect_keys)

lemma collect_Nil_iff: "collect ks b = [] \<longleftrightarrow> (\<forall>k\<in>set ks. map_of b k = None)"
  by (induction ks) (auto split: option.splits)

lemma collect_nonempty: "\<exists>k\<in>set ks. map_of b k \<noteq> None \<Longrightarrow> collect ks b \<noteq> []"
  by (simp add: collect_Nil_iff)

lemma collect_cong:
  "(\<forall>k\<in>set ks. map_of b k = map_of b' k) \<Longrightarrow> collect ks b = collect ks b'"
  by (induction ks) (auto split: option.splits)

lemma set_fields_map_of: "map_of (set_fields u d) = map_of d ++ map_of (rev u)"
proof (induction u arbitrary: d)
  case Nil
  show ?case by simp
next
  case (Cons p u)
  obtain k v where p: "p = (k, v)" by (cases p)
  have "map_of (set_fields (p # u) d) = map_of (AList.update k v d) ++ map_of (rev u)"
    using Cons.IH p by simp
  also have "\<dots> = (map_of d ++ [k \<mapsto> v]) ++ map_of (rev u)"
    by (simp add: update_conv')
  also have "\<dots> = map_of d ++ map_of (rev (p # u))"
    by (simp add: p)
  finally show ?case .
qed

lemma distinct_allowed: "distinct allowed"
  by (simp add: allowed_def)

text \<open>
  The document after \<^verbatim>\<open>$set\<close> of the collected fields: an allow-listed field of the
  body has the body's value, every other field is as it was.
\<close>

lemma set_collect_map_of:
  "map_of (set_fields (collect allowed b) d) k =
     (if k \<in> set allowed \<and> map_of b k \<noteq> None then map_of b k else map_of d k)"
proof -
  have d: "distinct (map fst (collect allowed b))"
    by (rule collect_distinct [OF distinct_allowed])
  then have "distinct (map fst (rev (collect allowed b)))"
    by (simp add: rev_map [symmetric])
  then have "map_of (rev (collect allowed b)) = map_of (collect allowed b)"
    using d by (simp add: map_of_inject_set)
  then show ?thesis
    by (auto simp: set_fields_map_of map_add_def collect_map_of split: option.splits)
qed

lemma set_collect_id: "map_of (set_fields (collect allowed b) d) ''_id'' = map_of d ''_id''"
proof -
  have "''_id'' \<notin> set allowed" by (simp add: allowed_def)
  then show ?thesis by (simp add: set_collect_map_of)
qed

lemma set_collect_value: "map_of (set_fields (collect allowed b) d) ''value'' = map_of d ''value''"
proof -
  have "''value'' \<notin> set allowed" by (simp add: allowed_def)
  then show ?thesis by (simp add: set_collect_map_of)
qed

lemma update_first_absent:
  "lookup_id x ds = None \<Longrightarrow> update_first x u ds = (None, ds)"
  by (induction ds) (auto simp: lookup_id_def split: if_splits)

lemma update_first_present:
  "lookup_id x ds = Some pre \<Longrightarrow> fst (update_first x u ds) = Some (set_fields u pre)"
  by (induction ds) (auto simp: lookup_id_def split: if_splits prod.splits)

text \<open>The store afterwards holds the updated document under the same identifier.\<close>

lemma update_first_lookup:
  "lookup_id x ds = Some pre \<Longrightarrow> map_of (set_fields u pre) ''_id'' = Some x \<Longrightarrow>
   lookup_id x (snd (update_first x u ds)) = Some (set_fields u pre)"
  by (induction ds) (auto simp: lookup_id_def split: if_splits prod.splits)

lemma update_first_other:
  "lookup_id y ds = None \<Longrightarrow> (\<And>d. map_of (set_fields u d) ''_id'' = map_of d ''_id'') \<Longrightarrow>
   lookup_id y (snd (update_first x u ds)) = None"
  by (induction ds) (auto simp: lookup_id_def split: if_splits prod.splits)

lemma findOneAndUpdate_snd: "snd (findOneAndUpdate h x u ds) = snd (update_first x u ds)"
  by (simp add: findOneAndUpdate_def split: prod.splits)

text \<open>
  What the handlers read as \<^verbatim>\<open>result.value\<close>: with a driver that returns the metadata,
  the document; with a driver that returns the document, the property \<^verbatim>\<open>value\<close> of
  the document itself.
\<close>

lemma result_value_metadata:
  "resultMetadata h \<Longrightarrow>
   result_value (fst (findOneAndUpdate h x u ds)) = map_option JObj (fst (update_first x u ds))"
  by (auto simp: findOneAndUpdate_def result_value_def split: prod.splits option.splits)

lemma result_value_document:
  "\<not> resultMetadata h \<Longrightarrow>
   result_value (fst (findOneAndUpdate h x u ds)) =
     (case fst (update_first x u ds) of
        None \<Rightarrow> None
      | Some d \<Rightarrow> (case map_of d ''value'' of
                     None \<Rightarrow> None
                   | Some v \<Rightarrow> if truthy v then Some v else None))"
  by (auto simp: findOneAndUpdate_def result_value_def split: prod.splits option.splits)

lemma result_value_absent:
  "lookup_id x ds = None \<Longrightarrow> result_value (fst (findOneAndUpdate h x u ds)) = None"
  by (cases "resultMetadata h")
     (simp_all add: result_value_metadata result_value_document update_first_absent)

lemma put_lessons_id_unfold:
  assumes "ObjectId h rid = Some i" and "collect allowed b \<noteq> []"
  shows "put_lessons_id h s rid (Some (JObj b)) =
     (case result_value (fst (findOneAndUpdate h (JOid i) (collect allowed b) (lessons s))) of
        None \<Rightarrow> (error_json 404 ''Lesson not found'',
                 s\<lparr>lessons := snd (update_first (JOid i) (collect allowed b) (lessons s))\<rparr>)
      | Some v \<Rightarrow> (Response 200 v,
                   s\<lparr>lessons := snd (update_first (JOid i) (collect allowed b) (lessons s))\<rparr>))"
  using assms findOneAndUpdate_snd [of h "JOid i" "collect allowed b" "lessons s"]
  by (auto simp: put_lessons_id_def split: prod.splits option.splits)

lemma put_lessons_id_v2_unfold:
  assumes "ObjectId h rid = Some i" and "collect allowed b \<noteq> []"
  shows "put_lessons_id_v2 h s rid (Some (JObj b)) =
     (let ls = snd (update_first (JOid i) (collect allowed b) (lessons s)) in
      case result_value (fst (findOneAndUpdate h (JOid i) (collect allowed b) (lessons s))) of
        Some v \<Rightarrow> (Response 200 v, s\<lparr>lessons := ls\<rparr>)
      | None \<Rightarrow>
          (case result_value (fst (findOneAndUpdate h (JStr rid) (collect allowed b) ls)) of
             Some v \<Rightarrow> (Response 200 v,
                         s\<lparr>lessons := snd (update_first (JStr rid) (collect allowed b) ls)\<rparr>)
           | None \<Rightarrow> (error_json 404 ''Lesson not found'',
                       s\<lparr>lessons := snd (update_first (JStr rid) (collect allowed b) ls)\<rparr>)))"
proof -
  let ?u = "collect allowed b"
  let ?ls = "snd (update_first (JOid i) ?u (lessons s))"
  obtain r where 1: "findOneAndUpdate h (JOid i) ?u (lessons s) = (r, ?ls)"
    using findOneAndUpdate_snd [of h "JOid i" ?u "lessons s"] by (metis prod.collapse)
  obtain r' where 2: "findOneAndUpdate h (JStr rid) ?u ?ls
      = (r', snd (update_first (JStr rid) ?u ?ls))"
    using findOneAndUpdate_snd [of h "JStr rid" ?u ?ls] by (metis prod.collapse)
  show ?thesis
    using assms by (simp add: put_lessons_id_v2_def 1 2 Let_def split: option.splits)
qed

lemma put_ignores:
  assumes "\<forall>k\<in>set allowed. map_of b k = map_of b' k"
  shows "put_lessons_id h s rid (Some (JObj b)) = put_lessons_id h s rid (Some (JObj b'))"
    and "put_lessons_id_v2 h s rid (Some (JObj b)) = put_lessons_id_v2 h s rid (Some (JObj b'))"
proof -
  have c: "collect allowed b = collect allowed b'" using assms by (rule collect_cong)
  show "put_lessons_id h s rid (Some (JObj b)) = put_lessons_id h s rid (Some (JObj b'))"
    unfolding put_lessons_id_def own_properties.simps option.case c by (rule refl)
  show "put_lessons_id_v2 h s rid (Some (JObj b)) = put_lessons_id_v2 h s rid (Some (JObj b'))"
    unfolding put_lessons_id_v2_def own_properties.simps option.case c by (rule refl)
qed

lemma put_no_fields:
  assumes "ObjectId h rid = Some i" and "\<forall>k\<in>set allowed. map_of b k = None"
  shows "put_lessons_id h s rid (Some (JObj b))
           = (error_json 400 ''No valid fields to update'', s)"
    and "put_lessons_id_v2 h s rid (Some (JObj b))
           = (error_json 400 ''No valid fields to update'', s)"
  using assms collect_Nil_iff [of allowed b]
  by (simp_all add: put_lessons_id_def put_lessons_id_v2_def)

lemma put_invalid_id:
  assumes "ObjectId h rid = None"
  shows "put_lessons_id h s rid req_body = (error_json 400 ''Invalid id'', s)"
    and "put_lessons_id_v2 h s rid req_body = (error_json 400 ''Invalid id'', s)"
  using assms by (simp_all add: put_lessons_id_def put_lessons_id_v2_def)

text \<open>A request without a body, with a valid identifier, is answered by the catch block.\<close>

lemma put_no_body:
  assumes "ObjectId h rid = Some i"
  shows "put_lessons_id h s rid None = (error_json 500 ''Failed to update lesson'', s)"
    and "put_lessons_id_v2 h s rid None = (error_json 500 ''Failed to update lesson'', s)"
  using assms by (simp_all add: put_lessons_id_def put_lessons_id_v2_def)



text \<open>
  With a driver that returns the metadata, the handlers answer a valid request on an
  existing lesson with the document after the update: each allow-listed field of the
  body has the body's value, every other field the value it had.
\<close>

lemma put_lessons_id_metadata_frame:
  assumes "resultMetadata h" and "ObjectId h rid = Some i" and "collect allowed b \<noteq> []"
    and "lookup_id (JOid i) (lessons s) = Some pre"
  shows "\<exists>post s'. put_lessons_id h s rid (Some (JObj b)) = (Response 200 (JObj post), s')
     \<and> (\<forall>k. map_of post k =
           (if k \<in> set allowed \<and> map_of b k \<noteq> None then map_of b k else map_of pre k))"
proof -
  have "result_value (fst (findOneAndUpdate h (JOid i) (collect allowed b) (lessons s)))
      = Some (JObj (set_fields (collect allowed b) pre))"
    using update_first_present [OF assms(4), of "collect allowed b"]
    by (simp add: result_value_metadata [OF assms(1)])
  then have "fst (put_lessons_id h s rid (Some (JObj b)))
      = Response 200 (JObj (set_fields (collect allowed b) pre))"
    by (simp add: put_lessons_id_unfold [OF assms(2,3)])
  then show ?thesis using set_collect_map_of by (metis prod.collapse)
qed

lemma put_lessons_id_v2_metadata_frame:
  assumes "resultMetadata h" and "ObjectId h rid = Some i" and "collect allowed b \<noteq> []"
    and "lookup_id (JOid i) (lessons s) = Some pre"
  shows "\<exists>post s'. put_lessons_id_v2 h s rid (Some (JObj b)) = (Response 200 (JObj post), s')
     \<and> (\<forall>k. map_of post k =
           (if k \<in> set allowed \<and> map_of b k \<noteq> None then map_of b k else map_of pre k))"
proof -
  have "result_value (fst (findOneAndUpdate h (JOid i) (collect allowed b) (lessons s)))
      = Some (JObj (set_fields (collect allowed b) pre))"
    using update_first_present [OF assms(4), of "collect allowed b"]
    by (simp add: result_value_metadata [OF assms(1)])
  then have "fst (put_lessons_id_v2 h s rid (Some (JObj b)))
      = Response 200 (JObj (set_fields (collect allowed b) pre))"
    by (simp add: put_lessons_id_v2_unfold [OF assms(2,3)])
  then show ?thesis using set_collect_map_of by (metis prod.collapse)
qed

text \<open>
  With a driver that returns the document, \<^verbatim>\<open>result.value\<close> is the lesson's own
  property \<^verbatim>\<open>value\<close>: for a lesson that has none, the handler in its first version
  updates the lesson and answers 404.
\<close>

lemma put_lessons_id_document_404:
  assumes "\<not> resultMetadata h" and "ObjectId h rid = Some i" and "collect allowed b \<noteq> []"
    and "lookup_id (JOid i) (lessons s) = Some pre" and "map_of pre ''value'' = None"
  shows "put_lessons_id h s rid (Some (JObj b))
      = (error_json 404 ''Lesson not found'',
         s\<lparr>lessons := snd (update_first (JOid i) (collect allowed b) (lessons s))\<rparr>)"
proof -
  have "result_value (fst (findOneAndUpdate h (JOid i) (collect allowed b) (lessons s))) = None"
    using update_first_present [OF assms(4), of "collect allowed b"] assms(5)
    by (simp add: result_value_document [OF assms(1)] set_collect_value)
  then show ?thesis by (simp add: put_lessons_id_unfold [OF assms(2,3)])
qed

lemma put_lessons_id_v2_document_404:
  assumes "\<not> resultMetadata h" and "ObjectId h rid = Some i" and "collect allowed b \<noteq> []"
    and "lookup_id (JOid i) (lessons s) = Some pre" and "map_of pre ''value'' = None"
    and "lookup_id (JStr rid) (lessons s) = None"
  shows "put_lessons_id_v2 h s rid (Some (JObj b))
      = (error_json 404 ''Lesson not found'',
         s\<lparr>lessons := snd (update_first (JOid i) (collect allowed b) (lessons s))\<rparr>)"
proof -
  let ?u = "collect allowed b"
  let ?ls = "snd (update_first (JOid i) ?u (lessons s))"
  have 1: "result_value (fst (findOneAndUpdate h (JOid i) ?u (lessons s))) = None"
    using update_first_present [OF assms(4), of ?u] assms(5)
    by (simp add: result_value_document [OF assms(1)] set_collect_value)
  have n: "lookup_id (JStr rid) ?ls = None"
    using assms(6) by (rule update_first_other) (rule set_collect_id)
  have 2: "result_value (fst (findOneAndUpdate h (JStr rid) ?u ?ls)) = None"
    using n by (rule result_value_absent)
  have 3: "snd (update_first (JStr rid) ?u ?ls) = ?ls"
    using update_first_absent [OF n, of ?u] by simp
  show ?thesis by (simp add: put_lessons_id_v2_unfold [OF assms(2,3)] 1 2 3 Let_def)
qed

lemma lookup_id_Some_id: "lookup_id x ds = Some d \<Longrightarrow> map_of d ''_id'' = Some x"
  by (auto simp: lookup_id_def find_Some_iff)

lemma update_first_collect_lookup:
  assumes "lookup_id x ds = Some pre"
  shows "lookup_id x (snd (update_first x (collect allowed b) ds))
      = Some (set_fields (collect allowed b) pre)"
  using assms
proof (rule update_first_lookup)
  show "map_of (set_fields (collect allowed b) pre) ''_id'' = Some x"
    using lookup_id_Some_id [OF assms] by (simp add: set_collect_id)
qed

subsection \<open>The examples, evaluated\<close>

lemma example_ObjectId:
  "ObjectId example_host id_math = Some 1"
  "ObjectId example_host id_absent = Some 10"
  "ObjectId example_host ''zz'' = None"
  by code_simp+

lemma example_lookup:
  "lookup_id (JOid 1) (lessons seeded) = Some lesson_math"
  "lookup_id (JOid 10) (lessons seeded) = None"
  "lookup_id (JStr id_absent) (lessons seeded) = None"
  by code_simp+

lemma seeded_no_list: "list_all no_list_field (lessons seeded)"
  by code_simp

section \<open>GET /search\<close>

text \<open>
  Claim C5. For every store, \<^verbatim>\<open>GET /search\<close> with an absent or an empty query string
  answers exactly what \<^verbatim>\<open>GET /lessons\<close> answers: the whole collection, unfiltered and
  in the store's order.
\<close>

theorem search_empty_is_listing:
  "search h s None = get_lessons s \<and> search h s (Some []) = get_lessons s"
  by (simp add: search_def get_lessons_def trim_def)

theorem search_empty_is_listing_witness:
  "search example_host seeded None = json_docs [lesson_math, lesson_science, lesson_english]
   \<and> search example_host seeded (Some []) = get_lessons seeded"
proof -
  have "get_lessons seeded = json_docs [lesson_math, lesson_science, lesson_english]"
    by (simp add: get_lessons_def find_all_def seeded_def)
  then show ?thesis using search_empty_is_listing [of example_host seeded] by simp
qed

text \<open>
  Claim C10. The query is trimmed before anything else is done with it: the handler
  answers a query as it answers the trimmed query; a query of whitespace only is answered
  as the empty query, with all lessons; and whitespace around a query takes no part in
  the matching, of texts or of numbers, since the answer is that to the query without it.
\<close>

theorem search_trims_query:
  "search h s (Some q) = search h s (Some (trim q))
   \<and> (list_all is_space q \<longrightarrow> search h s (Some q) = get_lessons s)
   \<and> (list_all is_space l \<and> list_all is_space r \<longrightarrow>
        search h s (Some (l @ q @ r)) = search h s (Some q))"
  by (simp add: search_unfold trim_idem trim_spaces trim_pad)

theorem search_trims_query_witness:
  "list_all is_space ''  ''
   \<and> search example_host seeded (Some ''  '') = get_lessons seeded
   \<and> search example_host seeded (Some (''  '' @ ''90'' @ ''  '')) = json_docs [lesson_science]"
proof -
  have sp: "list_all is_space ''  ''" by code_simp
  have a: "search example_host seeded (Some ''  '') = get_lessons seeded"
    using search_trims_query [of example_host seeded "''  ''"] sp by blast
  have b: "search example_host seeded (Some (''  '' @ ''90'' @ ''  ''))
      = search example_host seeded (Some ''90'')"
    using search_trims_query [where h = example_host and s = seeded and q = "''90''"
        and l = "''  ''" and r = "''  ''"] sp
    by blast
  have c: "search example_host seeded (Some ''90'') = json_docs [lesson_science]" by code_simp
  show ?thesis unfolding a b c using sp by simp
qed

text \<open>
  Claim C4, as the handler has it. The claim is stated for the query as it is sent and
  for every lesson; the handler matches the trimmed query, a query with the character
  U+0000 is refused by the driver, and a field that holds a list is matched by its
  elements. For every query without that character whose trimmed text \<open>t\<close> is not
  empty, and lessons none of whose searched fields holds a list (as the data model has
  them), \<^verbatim>\<open>GET /search\<close> answers exactly the lessons, in the store's order, of which
  one of these holds: the subject contains \<open>t\<close> as a substring without regard to case
  (the special characters of \<open>t\<close> taken literally), the location does, or \<open>t\<close>
  converts to a number and the price or the number of spaces equals that number. A query
  with the character U+0000 is answered 500 \<^verbatim>\<open>Search failed\<close>.
\<close>

theorem search_returns_matching:
  "(trim q \<noteq> [] \<and> CHR 0x00 \<notin> set q \<and> list_all no_list_field (lessons s) \<longrightarrow>
      search h s (Some q) = json_docs (filter (search_criterion h (trim q)) (lessons s)))
   \<and> (CHR 0x00 \<in> set q \<longrightarrow> search h s (Some q) = error_json 500 ''Search failed'')"
proof (intro conjI impI)
  assume a: "trim q \<noteq> [] \<and> CHR 0x00 \<notin> set q \<and> list_all no_list_field (lessons s)"
  then have "CHR 0x00 \<notin> set (trim q)" by (simp add: trim_nul)
  then show "search h s (Some q) = json_docs (filter (search_criterion h (trim q)) (lessons s))"
    using a filter_criterion [of "lessons s" "escape_regexp (trim q)" "trim q" h]
    by (simp add: search_unfold)
next
  assume "CHR 0x00 \<in> set q"
  then have n: "CHR 0x00 \<in> set (trim q)" by (simp add: trim_nul)
  then have "trim q \<noteq> []" by auto
  then show "search h s (Some q) = error_json 500 ''Search failed''"
    using n by (simp add: search_unfold)
qed

theorem search_returns_matching_witness:
  "trim '' math '' = ''math'' \<and> CHR 0x00 \<notin> set '' math ''
   \<and> list_all no_list_field (lessons seeded)
   \<and> search example_host seeded (Some '' math '')
       = json_docs (filter (search_criterion example_host ''math'') (lessons seeded))
   \<and> search example_host seeded (Some '' math '') = json_docs [lesson_math]
   \<and> search example_host seeded (Some [CHR ''a'', CHR 0x00, CHR ''b''])
       = error_json 500 ''Search failed''"
proof -
  have t: "trim '' math '' = ''math''" by code_simp
  then have n: "trim '' math '' \<noteq> []" by simp
  have z: "CHR 0x00 \<notin> set '' math ''" by simp
  have e: "search example_host seeded (Some '' math '') = json_docs [lesson_math]" by code_simp
  have y: "CHR 0x00 \<in> set [CHR ''a'', CHR 0x00, CHR ''b'']" by simp
  show ?thesis
    using search_returns_matching [of "'' math ''" seeded example_host]
      search_returns_matching [of "[CHR ''a'', CHR 0x00, CHR ''b'']" seeded example_host]
      t n z e y seeded_no_list
    by simp
qed

text \<open>
  The claim as it is stated fails in three ways. On the query \<^verbatim>\<open>" Math"\<close>: it is not
  empty, no subject and no location of the three lessons contains it and it is no
  number, yet the handler answers the lesson whose subject is \<^verbatim>\<open>Math\<close>. On the
  query of the three characters \<^verbatim>\<open>a\<close>, U+0000, \<^verbatim>\<open>b\<close>: it is not empty and is
  answered with status 500 and no list of lessons. And on the query \<^verbatim>\<open>math\<close> over
  the lesson whose subject is the list of \<^verbatim>\<open>Math\<close> and \<^verbatim>\<open>Art\<close>: the subject is no
  text that contains the query, nor is the location, and the query is no number, yet
  the handler answers the lesson.
\<close>

theorem search_untrimmed_counterexample:
  "'' Math'' \<noteq> []
   \<and> search example_host seeded (Some '' Math'')
       \<noteq> json_docs (filter (search_criterion example_host '' Math'') (lessons seeded))
   \<and> [CHR ''a'', CHR 0x00, CHR ''b''] \<noteq> []
   \<and> search example_host seeded (Some [CHR ''a'', CHR 0x00, CHR ''b''])
       = error_json 500 ''Search failed''
   \<and> error_json 500 ''Search failed''
       \<noteq> json_docs (filter (search_criterion example_host [CHR ''a'', CHR 0x00, CHR ''b''])
             (lessons seeded))
   \<and> ''math'' \<noteq> []
   \<and> search example_host listed (Some ''math'')
       \<noteq> json_docs (filter (search_criterion example_host ''math'') (lessons listed))"
proof -
  have l: "no_list_field lesson_math" "no_list_field lesson_science"
      "no_list_field lesson_english"
    by code_simp+
  have "\<not> search_criterion example_host '' Math'' lesson_math"
    unfolding matches_criterion [OF l(1), of "[]", symmetric] by code_simp
  moreover have "\<not> search_criterion example_host '' Math'' lesson_science"
    unfolding matches_criterion [OF l(2), of "[]", symmetric] by code_simp
  moreover have "\<not> search_criterion example_host '' Math'' lesson_english"
    unfolding matches_criterion [OF l(3), of "[]", symmetric] by code_simp
  ultimately have 1: "filter (search_criterion example_host '' Math'') (lessons seeded) = []"
    by (simp add: seeded_def)
  have 2: "search example_host seeded (Some '' Math'') = json_docs [lesson_math]"
    by code_simp
  have 3: "search example_host seeded (Some [CHR ''a'', CHR 0x00, CHR ''b''])
      = error_json 500 ''Search failed''"
    by code_simp
  have s: "map_of lesson_listed ''subject'' = Some (JArr [JStr ''Math'', JStr ''Art''])"
      "map_of lesson_listed ''location'' = Some (JStr ''Camden'')"
    by (simp_all add: lesson_listed_def)
  have "\<not> regex_search ''math'' ''Camden''" by code_simp
  then have c: "\<not> contains_ci ''math'' ''Camden''" by (simp add: regex_search_iff)
  have "Number example_host ''math'' = NaN" by code_simp
  then have "\<not> search_criterion example_host ''math'' lesson_listed"
    using c by (simp add: search_criterion_def field_contains_def s)
  then have 4: "filter (search_criterion example_host ''math'') (lessons listed) = []"
    by (simp add: listed_def)
  have 5: "search example_host listed (Some ''math'') = json_docs [lesson_listed]"
    by code_simp
  show ?thesis unfolding 1 2 3 4 5 by (simp add: json_docs_def error_json_def)
qed

section \<open>POST /orders\<close>

text \<open>
  Claim C1. The specification has every item whose \<^verbatim>\<open>lessonId\<close> is present and is
  not an identifier answered with 400 \<^verbatim>\<open>Invalid lessonId\<close>. The handler does not:
  \<^verbatim>\<open>ObjectId.createFromHexString\<close> throws on such a value, so that the test
  \<^verbatim>\<open>Number.isNaN\<close> around it is never reached, and the \<^verbatim>\<open>catch\<close> block answers.
  For every body that passes the checks on the name, the phone and the list of items,
  when the items before an item pass and the \<^verbatim>\<open>lessonId\<close> of that item is truthy
  and is not an identifier, the answer is 500 \<^verbatim>\<open>Failed to create order\<close>. No order
  is stored.
\<close>

theorem post_orders_unparsable_lessonId:
  assumes "passes_checks h b items" and "items = pre @ it # post"
    and "check_items pre = Continue"
    and "get_prop it ''lessonId'' = Some l" and "truthy l" and "createFromHexString l = None"
  shows "post_orders h now s b = (error_json 500 ''Failed to create order'', s)"
proof -
  have "it \<noteq> JNull" using assms(4) by auto
  then have "check_item it = Thrown" using assms(4-6) by (simp add: check_item_def)
  then have "check_items items = Thrown" using assms(2,3) by (simp add: check_items_append)
  then show ?thesis using assms(1) by (rule post_orders_thrown [rotated])
qed

theorem post_orders_unparsable_lessonId_witness:
  "passes_checks example_host unparsable_body
     [JObj [(''lessonId'', JStr ''xyz''), (''quantity'', JNum (Fin 1))]]
   \<and> createFromHexString (JStr ''xyz'') = None
   \<and> post_orders example_host 0 seeded unparsable_body
       = (error_json 500 ''Failed to create order'', seeded)"
proof -
  let ?it = "JObj [(''lessonId'', JStr ''xyz''), (''quantity'', JNum (Fin 1))]"
  have 1: "passes_checks example_host unparsable_body [?it]" by code_simp
  have 2: "[?it] = [] @ ?it # []" by simp
  have 3: "check_items [] = Continue" by simp
  have 4: "get_prop ?it ''lessonId'' = Some (JStr ''xyz'')" by simp
  have 5: "truthy (JStr ''xyz'')" by simp
  have 6: "createFromHexString (JStr ''xyz'') = None" by simp
  show ?thesis using post_orders_unparsable_lessonId [OF 1 2 3 4 5 6, of 0 seeded] 1 6 by simp
qed

text \<open>
  Claim C2. The checks run in the order the specification gives, and the first one that
  fails decides (\<open>post_orders_name_first\<close>, \<open>post_orders_phone_second\<close>,
  \<open>post_orders_items_third\<close>, \<open>check_items_first\<close>); but the check of a
  \<^verbatim>\<open>lessonId\<close> that is not an identifier is not answered with its own 400. On the
  order whose first item is valid and whose second item has the \<^verbatim>\<open>lessonId\<close>
  \<^verbatim>\<open>not-an-id\<close> and the quantity 0, the first item passes, the second throws, and
  the answer is 500 \<^verbatim>\<open>Failed to create order\<close>, for every host, clock and store.
\<close>

theorem post_orders_second_item_unparsable:
  "check_item (JObj [(''lessonId'', JStr id_math), (''quantity'', JNum (Fin 2))]) = Continue
   \<and> check_item (JObj [(''lessonId'', JStr ''not-an-id''), (''quantity'', JNum (Fin 0))]) = Thrown
   \<and> post_orders h now s second_item_body = (error_json 500 ''Failed to create order'', s)"
proof -
  let ?a = "JObj [(''lessonId'', JStr id_math), (''quantity'', JNum (Fin 2))]"
  let ?b = "JObj [(''lessonId'', JStr ''not-an-id''), (''quantity'', JNum (Fin 0))]"
  have a: "check_item ?a = Continue" by code_simp
  have b: "check_item ?b = Thrown" by code_simp
  have p: "passes_checks h second_item_body [?a, ?b]"
    by (simp add: passes_checks_def second_item_body_def name_re_test_def phone_re_test_def
          is_letter_def is_space_def is_digit_def)
  have "check_items [?a, ?b] = Thrown" using a b by simp
  then have "post_orders h now s second_item_body = (error_json 500 ''Failed to create order'', s)"
    using p by (rule post_orders_thrown [rotated])
  then show ?thesis using a b by simp
qed

theorem post_orders_second_item_unparsable_witness:
  "post_orders example_host 0 seeded second_item_body
     = (error_json 500 ''Failed to create order'', seeded)"
  using post_orders_second_item_unparsable [of example_host 0 seeded] by simp

text \<open>
  Claim C8. Whenever \<^verbatim>\<open>POST /orders\<close> answers with status 400, the store afterwards
  is the store before: the collection of orders is unchanged, no order is inserted.
\<close>

theorem post_orders_rejected_unchanged:
  assumes "status (fst (post_orders h now s b)) = 400"
  shows "snd (post_orders h now s b) = s \<and> orders (snd (post_orders h now s b)) = orders s"
  using assms
    post_orders_cases [of h now s b "fst (post_orders h now s b)" "snd (post_orders h now s b)"]
  by auto

theorem post_orders_rejected_unchanged_witness:
  "post_orders example_host 0 seeded bad_name_body = (error_json 400 ''Invalid name'', seeded)
   \<and> status (fst (post_orders example_host 0 seeded bad_name_body)) = 400
   \<and> orders (snd (post_orders example_host 0 seeded bad_name_body)) = []"
proof -
  have e: "post_orders example_host 0 seeded bad_name_body
      = (error_json 400 ''Invalid name'', seeded)"
    by code_simp
  then have st: "status (fst (post_orders example_host 0 seeded bad_name_body)) = 400"
    by (simp add: error_json_def)
  have "orders seeded = []" by (simp add: seeded_def)
  then show ?thesis using post_orders_rejected_unchanged [OF st] e st by simp
qed

text \<open>
  Claim C9. A body that is accepted is accepted again when it is sent a second time, to
  the store the first request left: both answers have status 201, they carry two
  different identifiers, and the collection of orders has grown by the two documents,
  one for each request. The handler looks for no earlier order with the same content.
\<close>

theorem post_orders_twice:
  assumes "status (fst (post_orders h t1 s b)) = 201"
  shows "\<exists>i1 d1 s1 i2 d2 s2.
       post_orders h t1 s b = (Response 201 (JObj ((''_id'', JOid i1) # d1)), s1)
     \<and> post_orders h t2 s1 b = (Response 201 (JObj ((''_id'', JOid i2) # d2)), s2)
     \<and> i1 \<noteq> i2
     \<and> orders s2 = orders s @ [(''_id'', JOid i1) # d1, (''_id'', JOid i2) # d2]"
  using assms by (rule post_orders_again)

theorem post_orders_twice_witness:
  "status (fst (post_orders example_host 7 seeded order_body)) = 201
   \<and> (\<exists>i1 d1 s1 i2 d2 s2.
       post_orders example_host 7 seeded order_body
         = (Response 201 (JObj ((''_id'', JOid i1) # d1)), s1)
     \<and> post_orders example_host 8 s1 order_body
         = (Response 201 (JObj ((''_id'', JOid i2) # d2)), s2)
     \<and> i1 \<noteq> i2
     \<and> orders s2 = orders seeded @ [(''_id'', JOid i1) # d1, (''_id'', JOid i2) # d2])"
proof -
  have st: "status (fst (post_orders example_host 7 seeded order_body)) = 201" by code_simp
  show ?thesis using post_orders_twice [OF st, of 8] st by simp
qed

section \<open>PUT /lessons/:id\<close>

text \<open>
  Claim C3. The specification has a valid request that names an allow-listed field, on
  a lesson that exists, answered with the document after the update. The handler reads
  the document as \<^verbatim>\<open>result.value\<close>. With a driver that returns the metadata it
  answers as the specification says (\<open>put_lessons_id_metadata_frame\<close>,
  \<open>put_lessons_id_v2_metadata_frame\<close>). With a driver that returns the document
  itself, as the driver does from version 6, it does not: for every such request on a
  lesson that has no field \<^verbatim>\<open>value\<close>, the lesson is updated in the store, and the
  answer is 404 \<^verbatim>\<open>Lesson not found\<close>; the second version of the handler does the
  same when no lesson has the string as its \<^verbatim>\<open>_id\<close>.
\<close>

theorem put_lessons_id_document_driver:
  assumes "\<not> resultMetadata h" and "ObjectId h rid = Some i"
    and "\<exists>k\<in>set allowed. map_of b k \<noteq> None"
    and "lookup_id (JOid i) (lessons s) = Some pre" and "map_of pre ''value'' = None"
  shows
    "fst (put_lessons_id h s rid (Some (JObj b))) = error_json 404 ''Lesson not found''
     \<and> lookup_id (JOid i) (lessons (snd (put_lessons_id h s rid (Some (JObj b)))))
         = Some (set_fields (collect allowed b) pre)
     \<and> (lookup_id (JStr rid) (lessons s) = None \<longrightarrow>
          fst (put_lessons_id_v2 h s rid (Some (JObj b))) = error_json 404 ''Lesson not found''
          \<and> lookup_id (JOid i) (lessons (snd (put_lessons_id_v2 h s rid (Some (JObj b)))))
              = Some (set_fields (collect allowed b) pre))"
proof -
  have c: "collect allowed b \<noteq> []" using assms(3) by (rule collect_nonempty)
  have u: "lookup_id (JOid i) (snd (update_first (JOid i) (collect allowed b) (lessons s)))
      = Some (set_fields (collect allowed b) pre)"
    using assms(4) by (rule update_first_collect_lookup)
  show ?thesis
    using put_lessons_id_document_404 [OF assms(1,2) c assms(4,5)]
      put_lessons_id_v2_document_404 [OF assms(1,2) c assms(4,5)] u
    by simp
qed

theorem put_lessons_id_document_driver_witness:
  "\<not> resultMetadata example_host
   \<and> ObjectId example_host id_math = Some 1
   \<and> lookup_id (JOid 1) (lessons seeded) = Some lesson_math
   \<and> fst (put_lessons_id example_host seeded id_math (Some (JObj [(''spaces'', JNum (Fin 3))])))
       = error_json 404 ''Lesson not found''
   \<and> fst (put_lessons_id_v2 example_host seeded id_math
            (Some (JObj [(''spaces'', JNum (Fin 3))])))
       = error_json 404 ''Lesson not found''
   \<and> lookup_id (JOid 1)
        (lessons (snd (put_lessons_id example_host seeded id_math
                         (Some (JObj [(''spaces'', JNum (Fin 3))])))))
       = Some [(''_id'', JOid 1), (''subject'', JStr ''Math''), (''location'', JStr ''Hendon''),
               (''price'', JNum (Fin 100)), (''spaces'', JNum (Fin 3)), (''image'', JNull)]
   \<and> fst (put_lessons_id legacy_host seeded id_math (Some (JObj [(''spaces'', JNum (Fin 3))])))
       = Response 200 (JObj
           [(''_id'', JOid 1), (''subject'', JStr ''Math''), (''location'', JStr ''Hendon''),
            (''price'', JNum (Fin 100)), (''spaces'', JNum (Fin 3)), (''image'', JNull)])"
proof -
  let ?b = "[(''spaces'', JNum (Fin 3))]"
  have 0: "\<not> resultMetadata example_host" by (simp add: example_host_def)
  have 1: "ObjectId example_host id_math = Some 1" by (rule example_ObjectId)
  have 2: "\<exists>k\<in>set allowed. map_of ?b k \<noteq> None" by (simp add: allowed_def)
  have 3: "lookup_id (JOid 1) (lessons seeded) = Some lesson_math" by (rule example_lookup)
  have 4: "map_of lesson_math ''value'' = None" by (simp add: lesson_math_def)
  have 5: "lookup_id (JStr id_math) (lessons seeded) = None" by code_simp
  have 6: "set_fields (collect allowed ?b) lesson_math
      = [(''_id'', JOid 1), (''subject'', JStr ''Math''), (''location'', JStr ''Hendon''),
         (''price'', JNum (Fin 100)), (''spaces'', JNum (Fin 3)), (''image'', JNull)]"
    by code_simp
  have 7: "fst (put_lessons_id legacy_host seeded id_math (Some (JObj ?b)))
       = Response 200 (JObj
           [(''_id'', JOid 1), (''subject'', JStr ''Math''), (''location'', JStr ''Hendon''),
            (''price'', JNum (Fin 100)), (''spaces'', JNum (Fin 3)), (''image'', JNull)])"
    by code_simp
  show ?thesis
    using put_lessons_id_document_driver [OF 0 1 2 3 4] 0 1 3 5 7 unfolding 6 by blast
qed

text \<open>
  Claim C6, as the handler has it. The identifier is checked before the body, so the
  claim holds for the requests whose identifier is valid; and the handler reads the
  properties of the body without a guard, so the claim is stated for the requests that
  have a body (\<^verbatim>\<open>req.body\<close> is neither undefined nor \<^verbatim>\<open>null\<close>; \<open>b\<close> below is
  what it holds). The fields of the body outside the allow-list are ignored: two bodies
  with the same allow-listed fields are answered alike and leave the same store,
  whatever else they hold. And when the identifier is valid and the body has no
  allow-listed field, the answer is 400 \<^verbatim>\<open>No valid fields to update\<close> and the store
  is unchanged. Both versions of the handler do so.
\<close>

theorem put_lessons_id_allow_list:
  "(own_properties req_body = Some b \<and> own_properties req_body' = Some b'
      \<and> (\<forall>k\<in>set allowed. map_of b k = map_of b' k) \<longrightarrow>
      put_lessons_id h s rid req_body = put_lessons_id h s rid req_body'
      \<and> put_lessons_id_v2 h s rid req_body = put_lessons_id_v2 h s rid req_body')
   \<and> (ObjectId h rid \<noteq> None \<and> own_properties req_body = Some b
      \<and> (\<forall>k\<in>set allowed. map_of b k = None) \<longrightarrow>
      put_lessons_id h s rid req_body = (error_json 400 ''No valid fields to update'', s)
      \<and> put_lessons_id_v2 h s rid req_body = (error_json 400 ''No valid fields to update'', s))"
proof -
  have o1: "put_lessons_id h s rid rb = put_lessons_id h s rid (Some (JObj c))"
    if "own_properties rb = Some c" for rb c
    unfolding put_lessons_id_def own_properties.simps that by (rule refl)
  have o2: "put_lessons_id_v2 h s rid rb = put_lessons_id_v2 h s rid (Some (JObj c))"
    if "own_properties rb = Some c" for rb c
    unfolding put_lessons_id_v2_def own_properties.simps that by (rule refl)
  show ?thesis
  proof (intro conjI impI)
    assume a: "own_properties req_body = Some b \<and> own_properties req_body' = Some b'
      \<and> (\<forall>k\<in>set allowed. map_of b k = map_of b' k)"
    then have c: "\<forall>k\<in>set allowed. map_of b k = map_of b' k" by simp
    show "put_lessons_id h s rid req_body = put_lessons_id h s rid req_body'"
      using a o1 [of req_body b] o1 [of req_body' b'] put_ignores(1) [OF c] by simp
    show "put_lessons_id_v2 h s rid req_body = put_lessons_id_v2 h s rid req_body'"
      using a o2 [of req_body b] o2 [of req_body' b'] put_ignores(2) [OF c] by simp
  next
    assume a: "ObjectId h rid \<noteq> None \<and> own_properties req_body = Some b
      \<and> (\<forall>k\<in>set allowed. map_of b k = None)"
    then obtain i where i: "ObjectId h rid = Some i" by auto
    have n: "\<forall>k\<in>set allowed. map_of b k = None" using a by simp
    show "put_lessons_id h s rid req_body = (error_json 400 ''No valid fields to update'', s)"
      using a o1 [of req_body b] put_no_fields(1) [OF i n] by simp
    show "put_lessons_id_v2 h s rid req_body
        = (error_json 400 ''No valid fields to update'', s)"
      using a o2 [of req_body b] put_no_fields(2) [OF i n] by simp
  qed
qed

theorem put_lessons_id_allow_list_witness:
  "put_lessons_id example_host seeded id_math
       (Some (JObj [(''spaces'', JNum (Fin 3)), (''foo'', JNull)]))
     = put_lessons_id example_host seeded id_math (Some (JObj [(''spaces'', JNum (Fin 3))]))
   \<and> ObjectId example_host id_math \<noteq> None
   \<and> put_lessons_id example_host seeded id_math (Some (JObj [(''foo'', JNum (Fin 1))]))
       = (error_json 400 ''No valid fields to update'', seeded)
   \<and> put_lessons_id_v2 example_host seeded id_math (Some (JArr [JNum (Fin 1)]))
       = (error_json 400 ''No valid fields to update'', seeded)"
proof -
  have 1: "\<forall>k\<in>set allowed. map_of [(''spaces'', JNum (Fin 3)), (''foo'', JNull)] k
             = map_of [(''spaces'', JNum (Fin 3))] k"
    by (simp add: allowed_def)
  have 2: "ObjectId example_host id_math \<noteq> None" by (simp add: example_ObjectId)
  have 3: "\<forall>k\<in>set allowed. map_of [(''foo'', JNum (Fin 1))] k = None"
    by (simp add: allowed_def)
  have 4: "\<forall>k\<in>set allowed. map_of ([] :: doc) k = None" by simp
  have a: "put_lessons_id example_host seeded id_math
       (Some (JObj [(''spaces'', JNum (Fin 3)), (''foo'', JNull)]))
     = put_lessons_id example_host seeded id_math (Some (JObj [(''spaces'', JNum (Fin 3))]))"
    using put_lessons_id_allow_list
      [where req_body = "Some (JObj [(''spaces'', JNum (Fin 3)), (''foo'', JNull)])"
         and b = "[(''spaces'', JNum (Fin 3)), (''foo'', JNull)]"
         and req_body' = "Some (JObj [(''spaces'', JNum (Fin 3))])"
         and b' = "[(''spaces'', JNum (Fin 3))]"
         and h = example_host and s = seeded and rid = id_math] 1
    by simp
  have b: "put_lessons_id example_host seeded id_math (Some (JObj [(''foo'', JNum (Fin 1))]))
       = (error_json 400 ''No valid fields to update'', seeded)"
    using put_lessons_id_allow_list
      [where req_body = "Some (JObj [(''foo'', JNum (Fin 1))])"
         and b = "[(''foo'', JNum (Fin 1))]"
         and req_body' = "Some (JObj [(''foo'', JNum (Fin 1))])"
         and b' = "[(''foo'', JNum (Fin 1))]"
         and h = example_host and s = seeded and rid = id_math] 2 3
    by simp
  have c: "put_lessons_id_v2 example_host seeded id_math (Some (JArr [JNum (Fin 1)]))
       = (error_json 400 ''No valid fields to update'', seeded)"
    using put_lessons_id_allow_list
      [where req_body = "Some (JArr [JNum (Fin 1)])" and b = "[]"
         and req_body' = "Some (JArr [JNum (Fin 1)])" and b' = "[]"
         and h = example_host and s = seeded and rid = id_math] 2 4
    by simp
  show ?thesis using a b c 2 by simp
qed

text \<open>
  The claim as it is stated fails on a request whose identifier is not valid: the body
  \<^verbatim>\<open>{foo: 1}\<close> has no allow-listed field, and the answer to
  \<^verbatim>\<open>PUT /lessons/zz\<close> is 400 \<^verbatim>\<open>Invalid id\<close>. It fails as well on a request with
  a valid identifier and no body where the body parser leaves \<^verbatim>\<open>req.body\<close>
  undefined: no field remains, and the answer is 500 \<^verbatim>\<open>Failed to update lesson\<close>.
\<close>

theorem put_no_fields_invalid_id_counterexample:
  "collect allowed [(''foo'', JNum (Fin 1))] = []
   \<and> put_lessons_id example_host seeded ''zz'' (Some (JObj [(''foo'', JNum (Fin 1))]))
       = (error_json 400 ''Invalid id'', seeded)
   \<and> put_lessons_id_v2 example_host seeded ''zz'' (Some (JObj [(''foo'', JNum (Fin 1))]))
       = (error_json 400 ''Invalid id'', seeded)
   \<and> error_json 400 ''Invalid id'' \<noteq> error_json 400 ''No valid fields to update''
   \<and> put_lessons_id example_host seeded id_math None
       = (error_json 500 ''Failed to update lesson'', seeded)
   \<and> put_lessons_id_v2 example_host seeded id_math None
       = (error_json 500 ''Failed to update lesson'', seeded)
   \<and> error_json 500 ''Failed to update lesson'' \<noteq> error_json 400 ''No valid fields to update''"
proof -
  have "collect allowed [(''foo'', JNum (Fin 1))] = []" by (simp add: allowed_def)
  moreover have "error_json 400 ''Invalid id'' \<noteq> error_json 400 ''No valid fields to update''"
    by (simp add: error_json_def)
  moreover have
    "error_json 500 ''Failed to update lesson'' \<noteq> error_json 400 ''No valid fields to update''"
    by (simp add: error_json_def)
  ultimately show ?thesis
    using put_invalid_id [OF example_ObjectId(3), of seeded "Some (JObj [(''foo'', JNum (Fin 1))])"]
      put_no_body [OF example_ObjectId(1), of seeded]
    by simp
qed




end
